theory Spec2Isabelle
  imports Complex_Main "HOL-Library.Sublist"
begin

section \<open>Python values used by the script\<close>

text \<open>
  The script \<^verbatim>\<open>crewai_marketing_strategy.py\<close> works on Python strings, one float (the
  budget), exceptions, paths and clock readings. A Python \<^verbatim>\<open>str\<close> is modelled as a
  \<^typ>\<open>string\<close>; the text the script itself contributes is ASCII apart from the pictographs in
  its console messages, which are written as their UTF-8 bytes.
\<close>

subsection \<open>Floats and the format specification \<^verbatim>\<open>,.0f\<close>\<close>

text \<open>
  A Python float is an IEEE double: a finite value (an exact rational; negative zero is a
  value of its own), an infinity or a NaN.
\<close>

datatype pyfloat = Finite rat | NegZero | PosInf | NegInf | NaN

definition digit_char :: "nat \<Rightarrow> char" where
  "digit_char d = ''0123456789'' ! (d mod 10)"

fun dec_digits :: "nat \<Rightarrow> string" where
  "dec_digits n = (if n < 10 then [digit_char n] else dec_digits (n div 10) @ [digit_char n])"

declare dec_digits.simps [simp del]

text \<open>Three digits with leading zeros, for a group below one thousand.\<close>

definition pad3 :: "nat \<Rightarrow> string" where
  "pad3 n = [digit_char (n div 100), digit_char (n div 10), digit_char n]"

text \<open>The option \<^verbatim>\<open>,\<close>: a comma before every group of three digits, from the right.\<close>

fun comma_nat :: "nat \<Rightarrow> string" where
  "comma_nat n =
     (if n < 1000 then dec_digits n else comma_nat (n div 1000) @ '','' @ pad3 (n mod 1000))"

declare comma_nat.simps [simp del]

text \<open>
  The precision \<^verbatim>\<open>.0\<close> rounds the exact value to an integer, a tie going to the even
  neighbour (\<^verbatim>\<open>0.5\<close> gives 0, \<^verbatim>\<open>1.5\<close> and \<^verbatim>\<open>2.5\<close> give 2).
\<close>

definition round_half_even :: "rat \<Rightarrow> int" where
  "round_half_even q =
     (let f = \<lfloor>q\<rfloor>; d = q - of_int f
      in if d < 1/2 then f else if 1/2 < d then f + 1 else if even f then f else f + 1)"

text \<open>
  \<^verbatim>\<open>f"{x:,.0f}"\<close>. The sign is the float's own (\<^verbatim>\<open>-0.4\<close> gives \<^verbatim>\<open>-0\<close>); an infinity
  and a NaN are spelled out and carry no digits.
\<close>

fun format_comma_0f :: "pyfloat \<Rightarrow> string" where
  "format_comma_0f (Finite q) =
     (if q < 0 then ''-'' @ comma_nat (nat (round_half_even (- q)))
      else comma_nat (nat (round_half_even q)))"
| "format_comma_0f NegZero = ''-0''"
| "format_comma_0f PosInf = ''inf''"
| "format_comma_0f NegInf = ''-inf''"
| "format_comma_0f NaN = ''nan''"


text \<open>
  What a reader calls an amount with comma-grouped thousands and no decimal places: one to
  three digits, then groups of a comma and exactly three digits, nothing else; an amount
  may carry a minus sign.
\<close>

definition is_digit :: "char \<Rightarrow> bool" where
  "is_digit c = (c \<in> set ''0123456789'')"










subsection \<open>String methods\<close>


definition replace :: "char \<Rightarrow> char \<Rightarrow> string \<Rightarrow> string" where
  "replace old new s = map (\<lambda>c. if c = old then new else c) s"

definition lower_char :: "char \<Rightarrow> char" where
  "lower_char c =
     (case map_of (zip ''ABCDEFGHIJKLMNOPQRSTUVWXYZ'' ''abcdefghijklmnopqrstuvwxyz'') c of
        None \<Rightarrow> c
      | Some l \<Rightarrow> l)"

definition lower :: "string \<Rightarrow> string" where
  "lower s = map lower_char s"

subsection \<open>Clock readings\<close>

record datetime =
  year :: nat
  month :: nat
  day :: nat
  hour :: nat
  minute :: nat
  second :: nat


definition pad2 :: "nat \<Rightarrow> string" where
  "pad2 n = [digit_char (n div 10), digit_char n]"

text \<open>\<^verbatim>\<open>strftime("%Y%m%d_%H%M%S")\<close> and \<^verbatim>\<open>strftime('%Y-%m-%d %H:%M:%S')\<close>.\<close>

definition strftime_stamp :: "datetime \<Rightarrow> string" where
  "strftime_stamp t =
     dec_digits (year t) @ pad2 (month t) @ pad2 (day t) @ ''_'' @
     pad2 (hour t) @ pad2 (minute t) @ pad2 (second t)"

definition strftime_generated :: "datetime \<Rightarrow> string" where
  "strftime_generated t =
     dec_digits (year t) @ ''-'' @ pad2 (month t) @ ''-'' @ pad2 (day t) @ '' '' @
     pad2 (hour t) @ '':'' @ pad2 (minute t) @ '':'' @ pad2 (second t)"

subsection \<open>Paths\<close>

text \<open>
  A \<^verbatim>\<open>pathlib.Path\<close> on POSIX is its list of components below the root. The operator
  \<^verbatim>\<open>/\<close> splits its right operand at every slash and drops empty and \<^verbatim>\<open>.\<close> components;
  an operand that starts with a slash replaces the left one.
\<close>

type_synonym path = "string list"

fun split_on :: "char \<Rightarrow> string \<Rightarrow> string list" where
  "split_on c [] = [[]]"
| "split_on c (x # xs) =
     (if x = c then [] # split_on c xs
      else (case split_on c xs of [] \<Rightarrow> [[x]] | w # ws \<Rightarrow> (x # w) # ws))"

definition path_parts :: "string \<Rightarrow> string list" where
  "path_parts s = filter (\<lambda>w. w \<noteq> [] \<and> w \<noteq> ''.'') (split_on CHR ''/'' s)"

definition path_div :: "path \<Rightarrow> string \<Rightarrow> path" where
  "path_div d s = (case s of
       [] \<Rightarrow> d
     | c # r \<Rightarrow> if c = CHR ''/'' then path_parts s else d @ path_parts s)"

text \<open>\<^verbatim>\<open>p.parent\<close> and \<^verbatim>\<open>p.name\<close>.\<close>

definition parent :: "path \<Rightarrow> path" where
  "parent p = butlast p"


subsection \<open>Exceptions\<close>

text \<open>
  A raised object with its class name and \<^verbatim>\<open>str(e)\<close>: an instance of \<^verbatim>\<open>Exception\<close>, or
  one of \<^verbatim>\<open>BaseException\<close> only (\<^verbatim>\<open>KeyboardInterrupt\<close>, \<^verbatim>\<open>SystemExit\<close>,
  \<^verbatim>\<open>GeneratorExit\<close>), which \<^verbatim>\<open>except Exception\<close> does not catch.
\<close>

datatype exn = Exception string string | Base_only string string

fun str_exn :: "exn \<Rightarrow> string" where
  "str_exn (Exception cls msg) = msg"
| "str_exn (Base_only cls msg) = msg"

fun is_Exception :: "exn \<Rightarrow> bool" where
  "is_Exception (Exception cls msg) = True"
| "is_Exception (Base_only cls msg) = False"

section \<open>The tools\<close>





text \<open>The tool objects, as the agents list them.\<close>

datatype tool =
  Research_market_trends | Analyze_competitors | Research_marketing_channels |
  Calculate_marketing_metrics

section \<open>Agents and tasks\<close>

text \<open>
  \<^verbatim>\<open>Agent\<close>, \<^verbatim>\<open>Task\<close> and \<^verbatim>\<open>Crew\<close> are classes of the crewai library; the script only
  constructs them, so an object is the record of the keyword arguments it was built from.
\<close>

record agent =
  role :: string
  goal :: string
  backstory :: string
  tools :: "tool list"
  verbose :: bool
  allow_delegation :: bool

definition create_market_research_agent :: "string \<Rightarrow> string \<Rightarrow> agent" where
  "create_market_research_agent product_name product_category = \<lparr>
     role =
       ''Market Research Analyst'',
     goal =
       ''Conduct comprehensive market research for '' @
       product_name @
       '' in the '' @
       product_category @
       '' category. Analyze target market, competitors, customer personas, and '' @
       ''market opportunities. Provide actionable insights that inform the marketing '' @
       ''strategy.'',
     backstory =
       ''You are a senior market research analyst with 10+ years of experience '' @
       ''in '' @
       product_category @
       '' markets. You excel at identifying market trends, understanding consumer '' @
       ''behavior, and analyzing competitive landscapes. You have a proven track '' @
       ''record of uncovering insights that drive successful marketing strategies. '' @
       ''You use data-driven approaches and always validate your findings with '' @
       ''multiple sources. Your research is thorough, accurate, and focused on '' @
       ''actionable insights for marketing teams.'',
     tools = [Research_market_trends, Analyze_competitors],
     verbose = True,
     allow_delegation = False \<rparr>"

definition create_content_strategist_agent :: "string \<Rightarrow> string \<Rightarrow> agent" where
  "create_content_strategist_agent product_name target_audience = \<lparr>
     role =
       ''Content Strategist'',
     goal =
       ''Develop compelling messaging, content themes, and brand voice for '' @
       product_name @
       '' targeting '' @
       target_audience @
       ''. Create content strategies that resonate with the target audience and '' @
       ''differentiate the product in the market.'',
     backstory =
       ''You are an expert content strategist specializing in '' @
       target_audience @
       '' marketing. You have a deep understanding of how to craft messages that '' @
       ''connect with audiences emotionally and logically. You excel at developing '' @
       ''brand voices, content themes, and messaging frameworks that drive engagement '' @
       ''and conversions. You understand the nuances of different content formats '' @
       ''and how to adapt messaging across channels. Your strategies are creative, '' @
       ''data-informed, and aligned with business objectives.'',
     tools = [Research_market_trends],
     verbose = True,
     allow_delegation = False \<rparr>"

definition create_channel_specialist_agent :: "string \<Rightarrow> string \<Rightarrow> agent" where
  "create_channel_specialist_agent product_category target_audience = \<lparr>
     role =
       ''Marketing Channel Specialist'',
     goal =
       ''Identify the most effective marketing channels and tactics for '' @
       product_category @
       '' targeting '' @
       target_audience @
       ''. Recommend channel strategies that maximize reach, engagement, and ROI.'',
     backstory =
       ''You are a marketing channel expert with extensive experience in '' @
       product_category @
       '' marketing. You understand the strengths and limitations of each marketing '' @
       ''channel (social media, email, SEO, PPC, content, etc.). You know which '' @
       ''channels work best for different audiences and how to integrate multiple '' @
       ''channels effectively. You stay current with channel trends, algorithm '' @
       ''changes, and emerging opportunities. Your recommendations are based on '' @
       ''data, industry best practices, and proven results.'',
     tools = [Research_marketing_channels],
     verbose = True,
     allow_delegation = False \<rparr>"

definition create_campaign_planner_agent :: "string \<Rightarrow> string \<Rightarrow> agent" where
  "create_campaign_planner_agent product_name target_audience = \<lparr>
     role =
       ''Campaign Planner'',
     goal =
       ''Create detailed, actionable marketing campaign plans for '' @
       product_name @
       '' targeting '' @
       target_audience @
       ''. Develop campaign timelines, tactics, and execution strategies that align '' @
       ''with marketing objectives.'',
     backstory =
       ''You are a strategic campaign planner with expertise in developing end-to-end '' @
       ''marketing campaigns. You excel at translating marketing strategies into '' @
       ''actionable campaign plans with clear timelines and milestones. You understand '' @
       ''how to sequence activities, coordinate across channels, and optimize for '' @
       ''maximum impact. You create realistic timelines, identify dependencies, '' @
       ''and plan for contingencies. Your campaigns are well-structured, measurable, '' @
       ''and designed for success.'',
     tools = [],
     verbose = True,
     allow_delegation = False \<rparr>"

definition create_budget_analyst_agent :: "string \<Rightarrow> agent" where
  "create_budget_analyst_agent product_category = \<lparr>
     role =
       ''Marketing Budget Analyst'',
     goal =
       ''Allocate marketing budget effectively across channels and activities for '' @
       product_category @
       '' products. Calculate ROI projections, cost estimates, and provide budget '' @
       ''optimization recommendations.'',
     backstory =
       ''You are a marketing finance expert specializing in budget allocation and '' @
       ''ROI analysis for '' @
       product_category @
       '' markets. You have deep knowledge of marketing costs, performance benchmarks, '' @
       ''and ROI calculations. You excel at optimizing budget allocation to maximize '' @
       ''marketing effectiveness. You understand the relationship between spend '' @
       ''and results across different channels and tactics. Your budget recommendations '' @
       ''are data-driven, realistic, and focused on achieving marketing objectives '' @
       ''efficiently.'',
     tools = [Calculate_marketing_metrics],
     verbose = True,
     allow_delegation = False \<rparr>"

record task =
  description :: string
  agent :: agent
  expected_output :: string

definition create_market_research_task :: "agent \<Rightarrow> string \<Rightarrow> string \<Rightarrow> string \<Rightarrow> string \<Rightarrow> task" where
  "create_market_research_task market_research_agent product_name product_category target_audience product_description = \<lparr>
     description =
       ''Conduct comprehensive market research for '' @
       product_name @
       '' ('' @
       product_category @
       ''). Product description: '' @
       product_description @
       ''. Target audience: '' @
       target_audience @
       ''. \<newline>'' @
       ''\<newline>'' @
       ''Your research should include:\<newline>'' @
       ''1. Target market analysis (size, demographics, psychographics, behaviors)\<newline>'' @
       ''2. Competitive landscape analysis (main competitors, their positioning, '' @
       ''strengths/weaknesses)\<newline>'' @
       ''3. Customer persona development (2-3 detailed personas)\<newline>'' @
       ''4. Market opportunities and gaps\<newline>'' @
       ''5. Key market trends affecting this product category\<newline>'' @
       ''6. Market challenges and barriers to entry\<newline>'' @
       ''\<newline>'' @
       ''Provide actionable insights that will inform the marketing strategy.'',
     agent = market_research_agent,
     expected_output =
       ''A comprehensive market research report including target market analysis, '' @
       ''competitive landscape, customer personas, market opportunities, trends, '' @
       ''and challenges for '' @
       product_name @
       '' in the '' @
       product_category @
       '' category.'' \<rparr>"

definition create_content_strategy_task :: "agent \<Rightarrow> string \<Rightarrow> string \<Rightarrow> string \<Rightarrow> string \<Rightarrow> task" where
  "create_content_strategy_task content_strategist_agent product_name product_description target_audience unique_value_proposition = \<lparr>
     description =
       ''Develop a comprehensive content strategy for '' @
       product_name @
       ''. Product: '' @
       product_description @
       ''. Target audience: '' @
       target_audience @
       ''. Unique value proposition: '' @
       unique_value_proposition @
       ''. \<newline>'' @
       ''\<newline>'' @
       ''Your content strategy should include:\<newline>'' @
       ''1. Core messaging framework (key messages, value propositions, differentiators)\<newline>'' @
       ''2. Brand voice and tone guidelines\<newline>'' @
       ''3. Content themes and topics (5-7 main themes)\<newline>'' @
       ''4. Content formats and types (blog posts, videos, social media, etc.)\<newline>'' @
       ''5. Content pillars that support marketing objectives\<newline>'' @
       ''6. Messaging variations for different channels and audiences\<newline>'' @
       ''\<newline>'' @
       ''Ensure messaging resonates with the target audience and differentiates '' @
       ''the product.'',
     agent = content_strategist_agent,
     expected_output =
       ''A comprehensive content strategy document including messaging framework, '' @
       ''brand voice, content themes, formats, and channel-specific messaging for '' @
       product_name @
       ''.'' \<rparr>"

definition create_channel_strategy_task :: "agent \<Rightarrow> string \<Rightarrow> string \<Rightarrow> string \<Rightarrow> string \<Rightarrow> task" where
  "create_channel_strategy_task channel_specialist_agent product_name product_category target_audience marketing_objectives = \<lparr>
     description =
       ''Develop a marketing channel strategy for '' @
       product_name @
       '' ('' @
       product_category @
       ''). Target audience: '' @
       target_audience @
       ''. Marketing objectives: '' @
       marketing_objectives @
       ''. \<newline>'' @
       ''\<newline>'' @
       ''Your channel strategy should include:\<newline>'' @
       ''1. Recommended marketing channels (prioritized list with rationale)\<newline>'' @
       ''2. Channel-specific tactics and approaches\<newline>'' @
       ''3. Channel integration strategy (how channels work together)\<newline>'' @
       ''4. Channel performance expectations and KPIs\<newline>'' @
       ''5. Channel-specific content requirements\<newline>'' @
       ''6. Emerging channel opportunities\<newline>'' @
       ''\<newline>'' @
       ''Focus on channels that best reach the target audience and achieve marketing '' @
       ''objectives.'',
     agent = channel_specialist_agent,
     expected_output =
       ''A comprehensive channel strategy document including recommended channels, '' @
       ''tactics, integration approach, KPIs, and content requirements for '' @
       product_name @
       ''.'' \<rparr>"

definition create_campaign_plan_task :: "agent \<Rightarrow> string \<Rightarrow> string \<Rightarrow> string \<Rightarrow> string \<Rightarrow> task" where
  "create_campaign_plan_task campaign_planner_agent product_name target_audience campaign_timeline marketing_objectives = \<lparr>
     description =
       ''Create a detailed marketing campaign plan for '' @
       product_name @
       '' targeting '' @
       target_audience @
       ''. Campaign timeline: '' @
       campaign_timeline @
       ''. Marketing objectives: '' @
       marketing_objectives @
       ''. \<newline>'' @
       ''\<newline>'' @
       ''Your campaign plan should include:\<newline>'' @
       ''1. Campaign phases and timeline (with specific dates/milestones)\<newline>'' @
       ''2. Campaign tactics and activities for each phase\<newline>'' @
       ''3. Channel-specific campaign activities\<newline>'' @
       ''4. Success metrics and KPIs for each phase\<newline>'' @
       ''5. Resource requirements and dependencies\<newline>'' @
       ''6. Risk mitigation strategies\<newline>'' @
       ''7. Campaign launch checklist\<newline>'' @
       ''\<newline>'' @
       ''Create an actionable, realistic campaign plan that can be executed.'',
     agent = campaign_planner_agent,
     expected_output =
       ''A detailed marketing campaign plan including phases, timeline, tactics, '' @
       ''metrics, resources, and execution strategy for '' @
       product_name @
       ''.'' \<rparr>"

definition create_budget_allocation_task :: "agent \<Rightarrow> string \<Rightarrow> pyfloat \<Rightarrow> string \<Rightarrow> string \<Rightarrow> task" where
  "create_budget_allocation_task budget_analyst_agent product_name total_budget marketing_objectives campaign_timeline = \<lparr>
     description =
       ''Allocate marketing budget for '' @
       product_name @
       '' campaign. Total budget: $'' @
       format_comma_0f total_budget @
       ''. Marketing objectives: '' @
       marketing_objectives @
       ''. Campaign timeline: '' @
       campaign_timeline @
       ''. \<newline>'' @
       ''\<newline>'' @
       ''Your budget allocation should include:\<newline>'' @
       ''1. Budget breakdown by channel (with percentages and dollar amounts)\<newline>'' @
       ''2. Budget allocation by campaign phase/timeline\<newline>'' @
       ''3. Cost estimates for key activities (advertising, content creation, tools, '' @
       ''etc.)\<newline>'' @
       ''4. Expected ROI and performance metrics for each channel\<newline>'' @
       ''5. Budget optimization recommendations\<newline>'' @
       ''6. Contingency planning (10-15% buffer)\<newline>'' @
       ''7. Cost-saving opportunities\<newline>'' @
       ''\<newline>'' @
       ''Ensure budget allocation maximizes ROI and supports marketing objectives.'',
     agent = budget_analyst_agent,
     expected_output =
       ''A comprehensive budget allocation plan including channel breakdown, timeline '' @
       ''allocation, cost estimates, ROI projections, and optimization recommendations '' @
       ''for the '' @
       product_name @
       '' marketing campaign.'' \<rparr>"

record crew =
  agents :: "agent list"
  tasks :: "task list"
  crew_verbose :: bool
  process :: string

section \<open>The world the script runs in\<close>

text \<open>
  What a run does beyond computing strings is recorded as the list of its events, in order.
  A \<open>Print\<close> is one call of \<^verbatim>\<open>print\<close> with its argument (console text as UTF-8 bytes);
  \<open>Open_w\<close> is a successful \<^verbatim>\<open>open(path, "w")\<close>, which creates the file.
\<close>

datatype event =
    Print string
  | Set_environ string string
  | Print_summary
  | New_agent agent
  | New_task task
  | New_crew crew
  | Kickoff crew
  | Run_task task "string option"
  | Open_w path
  | Write_f string
  | Close_f
  | Print_exc exn

text \<open>How a call of \<^verbatim>\<open>main\<close> ends: it returns, \<^verbatim>\<open>exit(n)\<close> ends the process, or an exception
  leaves it uncaught.\<close>

datatype outcome = Returned | Sys_exit int | Uncaught exn

text \<open>
  Everything the script reads from outside itself. The module \<^verbatim>\<open>shared_config\<close> is not
  part of the sources: the result of its \<^verbatim>\<open>validate_config()\<close> and the attributes of its
  \<^verbatim>\<open>Config\<close> are fields of the world. So are the language model behind the agents (what
  executing a task with a given context returns or raises), the directory of the script,
  the two readings of \<^verbatim>\<open>datetime.now()\<close>, whether opening a path for writing raises,
  whether the n-th \<^verbatim>\<open>f.write\<close> raises, and the built-in \<^verbatim>\<open>float\<close> on a string (the float,
  or the message of its \<^verbatim>\<open>ValueError\<close>).
\<close>

record env =
  validate_config :: bool
  API_KEY :: string
  API_BASE :: string
  USE_GROQ :: bool
  OPENAI_MODEL :: string
  llm :: "task \<Rightarrow> string option \<Rightarrow> exn + string"
  script_dir :: path
  now_stamp :: datetime
  now_generated :: datetime
  open_w :: "path \<Rightarrow> exn option"
  write_f :: "nat \<Rightarrow> exn option"
  parse_float :: "string \<Rightarrow> string + pyfloat"

section \<open>The crew's sequential process\<close>

text \<open>
  Modelled from the spec: \<^verbatim>\<open>Crew.kickoff()\<close> belongs to the crewai library, which is not
  part of the sources. The spec describes it as a sequential orchestration that hands the
  output of each role to the next and yields the concatenated result, and the script asks
  for it with \<^verbatim>\<open>process="sequential"\<close> (tasks execute in order, each building on previous
  outputs). The tasks run in list order; a task receives the output of the task before it
  (the first receives none); an exception raised by a task ends the run and is raised by
  \<^verbatim>\<open>kickoff\<close>.
\<close>

fun run_tasks ::
  "(task \<Rightarrow> string option \<Rightarrow> exn + string) \<Rightarrow> string option \<Rightarrow> task list \<Rightarrow>
   event list \<times> (exn + string list)" where
  "run_tasks ex ctx [] = ([], Inr [])"
| "run_tasks ex ctx (t # ts) =
     (case ex t ctx of
        Inl e \<Rightarrow> ([Run_task t ctx], Inl e)
      | Inr out \<Rightarrow>
          (case run_tasks ex (Some out) ts of
             (evs, Inl e) \<Rightarrow> (Run_task t ctx # evs, Inl e)
           | (evs, Inr outs) \<Rightarrow> (Run_task t ctx # evs, Inr (out # outs))))"

text \<open>
  Modelled from the spec: \<^verbatim>\<open>crew.kickoff()\<close> and \<^verbatim>\<open>str(result)\<close> of what it returns, both
  the library's. The result is kept as the list of the tasks' outputs; its string is their
  concatenation (the spec's "concatenated result").
\<close>

definition kickoff :: "env \<Rightarrow> crew \<Rightarrow> event list \<times> (exn + string list)" where
  "kickoff w c = (case run_tasks (llm w) None (tasks c) of (evs, r) \<Rightarrow> (Kickoff c # evs, r))"

definition str_result :: "string list \<Rightarrow> string" where
  "str_result outs = concat outs"

section \<open>The orchestration: \<^verbatim>\<open>main\<close>\<close>

text \<open>The parameters of \<^verbatim>\<open>main\<close>, which are also the keys of the \<^verbatim>\<open>kwargs\<close> dictionary.\<close>

record kwargs =
  product_name :: string
  product_category :: string
  product_description :: string
  target_audience :: string
  unique_value_proposition :: string
  marketing_objectives :: string
  campaign_timeline :: string
  total_budget :: pyfloat

text \<open>A code point as its UTF-8 bytes, for the pictographs of the console messages.\<close>

definition utf8 :: "nat \<Rightarrow> string" where
  "utf8 cp =
     (if cp < 0x80 then [char_of cp]
      else if cp < 0x800 then [char_of (0xC0 + cp div 64), char_of (0x80 + cp mod 64)]
      else if cp < 0x10000 then
        [char_of (0xE0 + cp div 4096), char_of (0x80 + cp div 64 mod 64),
         char_of (0x80 + cp mod 64)]
      else
        [char_of (0xF0 + cp div 262144), char_of (0x80 + cp div 4096 mod 64),
         char_of (0x80 + cp div 64 mod 64), char_of (0x80 + cp mod 64)])"

text \<open>\<^verbatim>\<open>"=" * 80\<close>.\<close>

definition rule80 :: string where
  "rule80 = replicate 80 CHR ''=''"

text \<open>\<^verbatim>\<open>str(path)\<close>.\<close>

definition str_path :: "path \<Rightarrow> string" where
  "str_path p = (if p = [] then ''/'' else concat (map (\<lambda>c. ''/'' @ c) p))"

text \<open>Lines 383 to 395: the banner, up to the announcement of the validation.\<close>

definition print_banner :: "kwargs \<Rightarrow> event list" where
  "print_banner a =
     [Print rule80,
      Print ''CrewAI Multi-Agent Marketing Strategy Development System'',
      Print rule80,
      Print [],
      Print (utf8 0x1F4E6 @ '' Product: '' @ product_name a),
      Print (utf8 0x1F3F7 @ utf8 0xFE0F @ ''  Category: '' @ product_category a),
      Print (utf8 0x1F3AF @ '' Target Audience: '' @ target_audience a),
      Print (utf8 0x1F4B0 @ '' Budget: $'' @ format_comma_0f (total_budget a)),
      Print (utf8 0x1F4C5 @ '' Timeline: '' @ campaign_timeline a),
      Print [],
      Print (utf8 0x1F50D @ '' Validating configuration...'')]"

text \<open>Lines 400 to 410: the environment variables and the summary of the configuration.\<close>

definition configure :: "env \<Rightarrow> event list" where
  "configure w =
     [Set_environ ''OPENAI_API_KEY'' (API_KEY w),
      Set_environ ''OPENAI_API_BASE'' (API_BASE w)] @
     (if USE_GROQ w then [Set_environ ''OPENAI_MODEL_NAME'' (OPENAI_MODEL w)] else []) @
     [Print (utf8 0x2705 @ '' Configuration validated successfully!''),
      Print [],
      Print_summary,
      Print []]"

text \<open>Lines 412 to 482: the five agents, the five tasks and the crew, with the messages
  printed between them.\<close>

definition form_crew :: "kwargs \<Rightarrow> event list \<times> crew" where
  "form_crew a =
     (let market_research_agent =
            create_market_research_agent (product_name a) (product_category a);
          content_strategist_agent =
            create_content_strategist_agent (product_name a) (target_audience a);
          channel_specialist_agent =
            create_channel_specialist_agent (product_category a) (target_audience a);
          campaign_planner_agent =
            create_campaign_planner_agent (product_name a) (target_audience a);
          budget_analyst_agent = create_budget_analyst_agent (product_category a);
          market_research_task =
            create_market_research_task market_research_agent (product_name a)
              (product_category a) (target_audience a) (product_description a);
          content_strategy_task =
            create_content_strategy_task content_strategist_agent (product_name a)
              (product_description a) (target_audience a) (unique_value_proposition a);
          channel_strategy_task =
            create_channel_strategy_task channel_specialist_agent (product_name a)
              (product_category a) (target_audience a) (marketing_objectives a);
          campaign_plan_task =
            create_campaign_plan_task campaign_planner_agent (product_name a)
              (target_audience a) (campaign_timeline a) (marketing_objectives a);
          budget_allocation_task =
            create_budget_allocation_task budget_analyst_agent (product_name a)
              (total_budget a) (marketing_objectives a) (campaign_timeline a);
          crew = \<lparr>
            agents = [market_research_agent, content_strategist_agent,
                      channel_specialist_agent, campaign_planner_agent, budget_analyst_agent],
            tasks = [market_research_task, content_strategy_task, channel_strategy_task,
                     campaign_plan_task, budget_allocation_task],
            crew_verbose = True,
            process = ''sequential'' \<rparr>
      in ([Print ''[1/5] Creating Market Research Analyst Agent...'',
           New_agent market_research_agent,
           Print ''[2/5] Creating Content Strategist Agent...'',
           New_agent content_strategist_agent,
           Print ''[3/5] Creating Marketing Channel Specialist Agent...'',
           New_agent channel_specialist_agent,
           Print ''[4/5] Creating Campaign Planner Agent...'',
           New_agent campaign_planner_agent,
           Print ''[5/5] Creating Marketing Budget Analyst Agent...'',
           New_agent budget_analyst_agent,
           Print (''\<newline>'' @ utf8 0x2705 @ '' All agents created successfully!''),
           Print [],
           Print ''Creating tasks for the crew...'',
           New_task market_research_task,
           New_task content_strategy_task,
           New_task channel_strategy_task,
           New_task campaign_plan_task,
           New_task budget_allocation_task,
           Print ''Tasks created successfully!'',
           Print [],
           Print ''Forming the Marketing Strategy Crew...'',
           New_crew crew,
           Print ''Crew formed successfully!'',
           Print [],
           Print rule80,
           Print ''Starting Marketing Strategy Development...'',
           Print rule80,
           Print []],
          crew))"

definition main_crew :: "kwargs \<Rightarrow> crew" where
  "main_crew a = snd (form_crew a)"

text \<open>Line 497: the path of the report.\<close>

definition output_filename :: "env \<Rightarrow> kwargs \<Rightarrow> path" where
  "output_filename w a =
     path_div (script_dir w)
       (''marketing_strategy_'' @ lower (replace CHR '' '' CHR ''_'' (product_name a)) @
        ''_'' @ strftime_stamp (now_stamp w) @ ''.txt'')"

text \<open>Lines 500 to 513: the arguments of the calls of \<^verbatim>\<open>f.write\<close>, in order.\<close>

definition report_chunks :: "env \<Rightarrow> kwargs \<Rightarrow> string list \<Rightarrow> string list" where
  "report_chunks w a result =
     [rule80 @ ''\<newline>'',
      ''MARKETING STRATEGY REPORT\<newline>'',
      rule80 @ ''\<newline>\<newline>'',
      ''Product: '' @ product_name a @ ''\<newline>'',
      ''Category: '' @ product_category a @ ''\<newline>'',
      ''Target Audience: '' @ target_audience a @ ''\<newline>'',
      ''Budget: $'' @ format_comma_0f (total_budget a) @ ''\<newline>'',
      ''Timeline: '' @ campaign_timeline a @ ''\<newline>'',
      ''Generated: '' @ strftime_generated (now_generated w) @ ''\<newline>\<newline>'',
      rule80 @ ''\<newline>'',
      ''COMPREHENSIVE MARKETING STRATEGY\<newline>'',
      rule80 @ ''\<newline>\<newline>'',
      str_result result,
      ''\<newline>'' @ rule80 @ ''\<newline>'']"

text \<open>The calls of \<^verbatim>\<open>f.write\<close> run until one raises; \<open>n\<close> counts them.\<close>

fun write_all :: "(nat \<Rightarrow> exn option) \<Rightarrow> nat \<Rightarrow> string list \<Rightarrow> event list \<times> exn option" where
  "write_all wr n [] = ([], None)"
| "write_all wr n (s # ss) =
     (case wr n of
        Some e \<Rightarrow> ([], Some e)
      | None \<Rightarrow> (case write_all wr (Suc n) ss of (evs, r) \<Rightarrow> (Write_f s # evs, r)))"

text \<open>
  Lines 486 to 523, the body of \<^verbatim>\<open>try\<close>: the events, and the exception that left the body
  if one did. The \<^verbatim>\<open>with\<close> statement closes the file also when a write raises.
\<close>

definition try_body :: "env \<Rightarrow> kwargs \<Rightarrow> crew \<Rightarrow> event list \<times> exn option" where
  "try_body w a crew =
     (case kickoff w crew of
        (steps, Inl e) \<Rightarrow> (steps, Some e)
      | (steps, Inr result) \<Rightarrow>
          (let completed =
                 [Print [],
                  Print rule80,
                  Print (utf8 0x2705 @
                         '' Marketing Strategy Development Completed Successfully!''),
                  Print rule80,
                  Print []]
           in case open_w w (output_filename w a) of
                Some e \<Rightarrow> (steps @ completed, Some e)
              | None \<Rightarrow>
                  (case write_all (write_f w) 0 (report_chunks w a result) of
                     (written, Some e) \<Rightarrow>
                       (steps @ completed @ [Open_w (output_filename w a)] @ written @ [Close_f],
                        Some e)
                   | (written, None) \<Rightarrow>
                       (steps @ completed @ [Open_w (output_filename w a)] @ written @ [Close_f] @
                        [Print (utf8 0x2705 @ '' Marketing strategy saved to: '' @
                                str_path (output_filename w a)),
                         Print [],
                         Print (utf8 0x1F4CB @ '' Strategy includes:''),
                         Print (''   '' @ utf8 0x2022 @
                                '' Market research and competitive analysis''),
                         Print (''   '' @ utf8 0x2022 @
                                '' Content strategy and messaging framework''),
                         Print (''   '' @ utf8 0x2022 @ '' Channel strategy and recommendations''),
                         Print (''   '' @ utf8 0x2022 @ '' Detailed campaign plan with timeline''),
                         Print (''   '' @ utf8 0x2022 @
                                '' Budget allocation and ROI projections''),
                         Print []],
                        None))))"

text \<open>Lines 526 to 533, the body of \<^verbatim>\<open>except Exception as e\<close>.\<close>

definition except_body :: "exn \<Rightarrow> event list" where
  "except_body e =
     [Print (''\<newline>'' @ utf8 0x274C @ '' Error during crew execution: '' @ str_exn e),
      Print (''\<newline>'' @ utf8 0x1F50D @ '' Troubleshooting:''),
      Print ''   1. Verify OPENAI_API_KEY is set in parent directory .env file'',
      Print ''   2. Check API key is valid and has sufficient credits'',
      Print ''   3. Verify internet connection'',
      Print [],
      Print_exc e]"

text \<open>
  \<^verbatim>\<open>main\<close>. The handler takes an exception of the body only when it is an instance of
  \<^verbatim>\<open>Exception\<close>; any other leaves \<^verbatim>\<open>main\<close>.
\<close>

definition main :: "env \<Rightarrow> kwargs \<Rightarrow> event list \<times> outcome" where
  "main w a =
     (if \<not> validate_config w then
        (print_banner a @
         [Print (utf8 0x274C @
                 '' Configuration validation failed. Please set up your .env file.'')],
         Sys_exit 1)
      else
        (case form_crew a of
           (formed, crew) \<Rightarrow>
             (case try_body w a crew of
                (tried, None) \<Rightarrow> (print_banner a @ configure w @ formed @ tried, Returned)
              | (tried, Some e) \<Rightarrow>
                  if is_Exception e then
                    (print_banner a @ configure w @ formed @ tried @ except_body e, Returned)
                  else (print_banner a @ configure w @ formed @ tried, Uncaught e))))"

section \<open>The command line\<close>

text \<open>Lines 540 to 549: the defaults.\<close>

definition default_kwargs :: kwargs where
  "default_kwargs = \<lparr>
     product_name = ''AI-Powered Task Manager'',
     product_category = ''Productivity Software'',
     product_description =
       ''An AI-powered task management application that helps teams organize, '' @
       ''prioritize, and complete work more efficiently'',
     target_audience = ''Small to medium-sized business teams and remote workers'',
     unique_value_proposition =
       ''Intelligent task prioritization using AI, seamless team collaboration, '' @
       ''and automated workflow optimization'',
     marketing_objectives =
       ''Increase brand awareness, generate qualified leads, and drive product sign-ups'',
     campaign_timeline = ''3 months (Q1 launch campaign)'',
     total_budget = Finite 50000 \<rparr>"

text \<open>
  Lines 553 to 560, with \<open>argv\<close> for \<^verbatim>\<open>sys.argv\<close>. The \<^verbatim>\<open>ValueError\<close> of \<^verbatim>\<open>float\<close> is raised
  outside every \<^verbatim>\<open>try\<close>, before \<^verbatim>\<open>main\<close> is called.
\<close>

definition script :: "env \<Rightarrow> string list \<Rightarrow> event list \<times> outcome" where
  "script w argv =
     (let kwargs1 = (if length argv > 1 then default_kwargs\<lparr>product_name := argv ! 1\<rparr>
                     else default_kwargs);
          kwargs2 = (if length argv > 2 then kwargs1\<lparr>product_category := argv ! 2\<rparr>
                     else kwargs1)
      in if length argv > 3 then
           (case parse_float w (argv ! 3) of
              Inl msg \<Rightarrow> ([], Uncaught (Exception ''ValueError'' msg))
            | Inr b \<Rightarrow> main w (kwargs2\<lparr>total_budget := b\<rparr>))
         else main w kwargs2)"

section \<open>Observing a run\<close>

text \<open>What a trace says: the crews kicked off, the tasks run with the context each received,
  the files created, and the text written.\<close>

fun kickoffs :: "event list \<Rightarrow> crew list" where
  "kickoffs [] = []"
| "kickoffs (Kickoff c # es) = c # kickoffs es"
| "kickoffs (e # es) = kickoffs es"

fun task_runs :: "event list \<Rightarrow> (task \<times> string option) list" where
  "task_runs [] = []"
| "task_runs (Run_task t ctx # es) = (t, ctx) # task_runs es"
| "task_runs (e # es) = task_runs es"

fun files_created :: "event list \<Rightarrow> path list" where
  "files_created [] = []"
| "files_created (Open_w p # es) = p # files_created es"
| "files_created (e # es) = files_created es"

fun written :: "event list \<Rightarrow> string" where
  "written [] = []"
| "written (Write_f s # es) = s @ written es"
| "written (e # es) = written es"

text \<open>Events that only print to the console.\<close>

fun is_print :: "event \<Rightarrow> bool" where
  "is_print (Print s) = True"
| "is_print e = False"

text \<open>
  The hand-off of a linear pipeline, read off the runs of a trace: every run received the
  output of the run before it (the first received none), and a run whose task raised is the
  last one.
\<close>

fun handed_on ::
  "(task \<Rightarrow> string option \<Rightarrow> exn + string) \<Rightarrow> string option \<Rightarrow>
   (task \<times> string option) list \<Rightarrow> bool" where
  "handed_on ex ctx [] = True"
| "handed_on ex ctx ((t, c) # rs) =
     (c = ctx \<and> (case ex t c of Inl e \<Rightarrow> rs = [] | Inr out \<Rightarrow> handed_on ex (Some out) rs))"


section \<open>Some worlds\<close>

text \<open>
  A world in which everything succeeds: the configuration is valid, every task returns the
  role of its agent as its output, files open and writes go through.
\<close>

definition sample_world :: env where
  "sample_world = \<lparr>
     validate_config = True,
     API_KEY = ''sk-test'',
     API_BASE = ''https://api.openai.com/v1'',
     USE_GROQ = False,
     OPENAI_MODEL = ''gpt-4o-mini'',
     llm = (\<lambda>t ctx. Inr (role (agent t))),
     script_dir = [''home'', ''lab'', ''crewai''],
     now_stamp = \<lparr>year = 2026, month = 11, day = 4, hour = 1, minute = 2, second = 3\<rparr>,
     now_generated = \<lparr>year = 2026, month = 11, day = 4, hour = 1, minute = 2, second = 4\<rparr>,
     open_w = (\<lambda>p. None),
     write_f = (\<lambda>n. None),
     parse_float = (\<lambda>s. if s = ''75000'' then Inr (Finite 75000)
                          else Inl ''could not convert string to float'') \<rparr>"

text \<open>The same world with an invalid configuration.\<close>

definition unconfigured_world :: env where
  "unconfigured_world = sample_world\<lparr>validate_config := False\<rparr>"

text \<open>The language model is unreachable: every task raises an \<^verbatim>\<open>Exception\<close>.\<close>

definition offline_world :: env where
  "offline_world =
     sample_world\<lparr>llm := (\<lambda>t ctx. Inl (Exception ''APIConnectionError'' ''Connection error.''))\<rparr>"

text \<open>The user interrupts the first task with Ctrl-C.\<close>

definition interrupted_world :: env where
  "interrupted_world =
     sample_world\<lparr>llm := (\<lambda>t ctx. Inl (Base_only ''KeyboardInterrupt'' []))\<rparr>"

text \<open>
  A file system in which only the directory of the script exists: opening a path in any
  other directory raises \<^verbatim>\<open>FileNotFoundError\<close>.
\<close>

definition bare_world :: env where
  "bare_world =
     sample_world\<lparr>open_w := (\<lambda>p. if parent p = [''home'', ''lab'', ''crewai''] then None
                                   else Some (Exception ''FileNotFoundError''
                                                ''[Errno 2] No such file or directory''))\<rparr>"

text \<open>The defaults with a product name that contains a slash.\<close>

definition slash_kwargs :: kwargs where
  "slash_kwargs = default_kwargs\<lparr>product_name := ''CI/CD Tool''\<rparr>"


section \<open>Facts about the formats\<close>

subsection \<open>Decimal digits and comma groups\<close>

lemma is_digit_digit_char: "is_digit (digit_char d)"
proof -
  have "d mod 10 < length ''0123456789''" by simp
  then have "''0123456789'' ! (d mod 10) \<in> set ''0123456789''" by (rule nth_mem)
  then show ?thesis unfolding is_digit_def digit_char_def .
qed

lemma dec_digits_small: "n < 10 \<Longrightarrow> dec_digits n = [digit_char n]"
  by (subst dec_digits.simps) simp

lemma dec_digits_step: "10 \<le> n \<Longrightarrow> dec_digits n = dec_digits (n div 10) @ [digit_char n]"
  by (subst dec_digits.simps) simp








lemma comma_nat_small: "n < 1000 \<Longrightarrow> comma_nat n = dec_digits n"
  by (subst comma_nat.simps) simp

lemma comma_nat_step:
  "1000 \<le> n \<Longrightarrow> comma_nat n = comma_nat (n div 1000) @ '','' @ pad3 (n mod 1000)"
  by (subst comma_nat.simps) simp


lemma digit_char_not_minus: "digit_char d \<noteq> CHR ''-''"
  using is_digit_digit_char [of d] by (auto simp: is_digit_def)












lemmas eval_digits = comma_nat_small comma_nat_step dec_digits_small dec_digits_step pad3_def
  pad2_def digit_char_def

subsection \<open>Sign and value of an amount\<close>









subsection \<open>Substrings\<close>





section \<open>The tools format their arguments\<close>




section \<open>Facts about runs\<close>

subsection \<open>Reading traces\<close>

lemma kickoffs_append: "kickoffs (xs @ ys) = kickoffs xs @ kickoffs ys"
  by (induction xs rule: kickoffs.induct) simp_all

lemma task_runs_append: "task_runs (xs @ ys) = task_runs xs @ task_runs ys"
  by (induction xs rule: task_runs.induct) simp_all

lemma files_created_append: "files_created (xs @ ys) = files_created xs @ files_created ys"
  by (induction xs rule: files_created.induct) simp_all

lemma written_append: "written (xs @ ys) = written xs @ written ys"
  by (induction xs rule: written.induct) simp_all

lemmas proj_append = kickoffs_append task_runs_append files_created_append written_append

lemma banner_silent:
  "kickoffs (print_banner a) = []" "task_runs (print_banner a) = []"
  "files_created (print_banner a) = []" "written (print_banner a) = []"
  "list_all is_print (print_banner a)"
  by (simp_all add: print_banner_def)

lemma configure_silent:
  "kickoffs (configure w) = []" "task_runs (configure w) = []"
  "files_created (configure w) = []" "written (configure w) = []"
  by (simp_all add: configure_def)

lemma form_crew_silent:
  "kickoffs (fst (form_crew a)) = []" "task_runs (fst (form_crew a)) = []"
  "files_created (fst (form_crew a)) = []" "written (fst (form_crew a)) = []"
  by (simp_all add: form_crew_def Let_def)

lemma except_body_silent:
  "kickoffs (except_body e) = []" "task_runs (except_body e) = []"
  "files_created (except_body e) = []" "written (except_body e) = []"
  by (simp_all add: except_body_def)

lemma run_tasks_Cons_Inl:
  "ex t ctx = Inl e \<Longrightarrow> run_tasks ex ctx (t # ts) = ([Run_task t ctx], Inl e)"
  by simp

lemma run_tasks_Cons_Inr:
  "ex t ctx = Inr out \<Longrightarrow>
   run_tasks ex ctx (t # ts) =
     (Run_task t ctx # fst (run_tasks ex (Some out) ts),
      (case snd (run_tasks ex (Some out) ts) of Inl e \<Rightarrow> Inl e | Inr outs \<Rightarrow> Inr (out # outs)))"
  by (simp split: prod.splits sum.splits)

lemma run_tasks_silent:
  "kickoffs (fst (run_tasks ex ctx ts)) = [] \<and>
   files_created (fst (run_tasks ex ctx ts)) = [] \<and>
   written (fst (run_tasks ex ctx ts)) = []"
proof (induction ts arbitrary: ctx)
  case Nil
  show ?case by simp
next
  case (Cons t ts)
  show ?case
  proof (cases "ex t ctx")
    case (Inl e)
    then show ?thesis by (simp add: run_tasks_Cons_Inl del: run_tasks.simps)
  next
    case (Inr out)
    then show ?thesis using Cons [of "Some out"]
      by (simp add: run_tasks_Cons_Inr del: run_tasks.simps)
  qed
qed

lemma run_tasks_prefix: "prefix (map fst (task_runs (fst (run_tasks ex ctx ts)))) ts"
proof (induction ts arbitrary: ctx)
  case Nil
  show ?case by simp
next
  case (Cons t ts)
  show ?case
  proof (cases "ex t ctx")
    case (Inl e)
    then show ?thesis by (simp add: run_tasks_Cons_Inl del: run_tasks.simps)
  next
    case (Inr out)
    then show ?thesis using Cons [of "Some out"]
      by (simp add: run_tasks_Cons_Inr del: run_tasks.simps)
  qed
qed

lemma run_tasks_handed_on: "handed_on ex ctx (task_runs (fst (run_tasks ex ctx ts)))"
proof (induction ts arbitrary: ctx)
  case Nil
  show ?case by simp
next
  case (Cons t ts)
  show ?case
  proof (cases "ex t ctx")
    case (Inl e)
    then show ?thesis by (simp add: run_tasks_Cons_Inl del: run_tasks.simps)
  next
    case (Inr out)
    then show ?thesis using Cons [of "Some out"]
      by (simp add: run_tasks_Cons_Inr del: run_tasks.simps)
  qed
qed

lemma run_tasks_success:
  "snd (run_tasks ex ctx ts) = Inr outs \<Longrightarrow>
   map fst (task_runs (fst (run_tasks ex ctx ts))) = ts \<and> length outs = length ts"
proof (induction ts arbitrary: ctx outs)
  case Nil
  then show ?case by simp
next
  case (Cons t ts)
  show ?case
  proof (cases "ex t ctx")
    case (Inl e)
    with Cons.prems show ?thesis by (simp add: run_tasks_Cons_Inl del: run_tasks.simps)
  next
    case (Inr out)
    note o = Inr
    show ?thesis
    proof (cases "snd (run_tasks ex (Some out) ts)")
      case (Inl e)
      with o Cons.prems show ?thesis by (simp add: run_tasks_Cons_Inr del: run_tasks.simps)
    next
      case (Inr outs')
      with o Cons.prems have "outs = out # outs'"
        by (simp add: run_tasks_Cons_Inr del: run_tasks.simps)
      with o Inr Cons.IH [of "Some out" outs'] show ?thesis
        by (simp add: run_tasks_Cons_Inr del: run_tasks.simps)
    qed
  qed
qed

subsection \<open>How \<^verbatim>\<open>main\<close> ends\<close>

lemma main_unconfigured:
  "\<not> validate_config w \<Longrightarrow>
   main w a =
     (print_banner a @
      [Print (utf8 0x274C @ '' Configuration validation failed. Please set up your .env file.'')],
      Sys_exit 1)"
  by (simp add: main_def)

lemma form_crew_pair: "form_crew a = (fst (form_crew a), main_crew a)"
  by (simp add: main_crew_def)

lemma main_returns:
  "validate_config w \<Longrightarrow> snd (try_body w a (main_crew a)) = None \<Longrightarrow>
   main w a =
     (print_banner a @ configure w @ fst (form_crew a) @ fst (try_body w a (main_crew a)),
      Returned)"
proof -
  assume v: "validate_config w" and r: "snd (try_body w a (main_crew a)) = None"
  have f: "form_crew a = (fst (form_crew a), main_crew a)" by (simp add: main_crew_def)
  have t: "try_body w a (main_crew a) = (fst (try_body w a (main_crew a)), None)"
    using r by (metis prod.collapse)
  show ?thesis
    unfolding main_def by (subst f, simp only: prod.case, subst t) (simp add: v)
qed

lemma main_catches:
  "validate_config w \<Longrightarrow> snd (try_body w a (main_crew a)) = Some e \<Longrightarrow> is_Exception e \<Longrightarrow>
   main w a =
     (print_banner a @ configure w @ fst (form_crew a) @ fst (try_body w a (main_crew a)) @
      except_body e, Returned)"
proof -
  assume v: "validate_config w" and r: "snd (try_body w a (main_crew a)) = Some e" and x: "is_Exception e"
  have f: "form_crew a = (fst (form_crew a), main_crew a)" by (simp add: main_crew_def)
  have t: "try_body w a (main_crew a) = (fst (try_body w a (main_crew a)), Some e)"
    using r by (metis prod.collapse)
  show ?thesis
    unfolding main_def by (subst f, simp only: prod.case, subst t) (simp add: v x)
qed

lemma main_propagates:
  "validate_config w \<Longrightarrow> snd (try_body w a (main_crew a)) = Some e \<Longrightarrow> \<not> is_Exception e \<Longrightarrow>
   main w a =
     (print_banner a @ configure w @ fst (form_crew a) @ fst (try_body w a (main_crew a)),
      Uncaught e)"
proof -
  assume v: "validate_config w" and r: "snd (try_body w a (main_crew a)) = Some e" and x: "\<not> is_Exception e"
  have f: "form_crew a = (fst (form_crew a), main_crew a)" by (simp add: main_crew_def)
  have t: "try_body w a (main_crew a) = (fst (try_body w a (main_crew a)), Some e)"
    using r by (metis prod.collapse)
  show ?thesis
    unfolding main_def by (subst f, simp only: prod.case, subst t) (simp add: v x)
qed


section \<open>An invalid configuration ends the process\<close>

text \<open>
  Claim C8. If \<^verbatim>\<open>validate_config()\<close> returns false, \<^verbatim>\<open>main\<close> ends the process with exit
  code 1, and all it has done until then is print: no agent, task or crew was created, no
  environment variable was set and no file was opened or written.
\<close>

theorem invalid_configuration_exits:
  assumes "\<not> validate_config w"
  shows "snd (main w a) = Sys_exit 1 \<and> list_all is_print (fst (main w a))"
  using assms by (simp add: main_unconfigured banner_silent)

theorem invalid_configuration_exits_witness:
  "\<not> validate_config unconfigured_world \<and>
   snd (main unconfigured_world default_kwargs) = Sys_exit 1 \<and>
   list_all is_print (fst (main unconfigured_world default_kwargs))"
proof -
  have h: "\<not> validate_config unconfigured_world"
    by (simp add: unconfigured_world_def sample_world_def)
  from invalid_configuration_exits [OF h, of default_kwargs] h show ?thesis by blast
qed

section \<open>The command line\<close>

text \<open>
  Claim C10. Command-line arguments override the defaults by position: \<^verbatim>\<open>argv[1]\<close> replaces
  the product name, \<^verbatim>\<open>argv[2]\<close> the product category, and \<^verbatim>\<open>argv[3]\<close> is parsed with
  \<^verbatim>\<open>float\<close> into the total budget; every other parameter keeps its default. When \<^verbatim>\<open>float\<close>
  rejects the third argument, its \<^verbatim>\<open>ValueError\<close> is uncaught and ends the program before
  \<^verbatim>\<open>main\<close> has started: nothing has happened yet.
\<close>

theorem command_line_overrides:
  "(length argv \<le> 1 \<longrightarrow> script w argv = main w default_kwargs) \<and>
   (length argv = 2 \<longrightarrow> script w argv = main w (default_kwargs\<lparr>product_name := argv ! 1\<rparr>)) \<and>
   (length argv = 3 \<longrightarrow>
      script w argv =
        main w (default_kwargs\<lparr>product_name := argv ! 1, product_category := argv ! 2\<rparr>)) \<and>
   (3 < length argv \<and> parse_float w (argv ! 3) = Inr b \<longrightarrow>
      script w argv =
        main w (default_kwargs\<lparr>product_name := argv ! 1, product_category := argv ! 2,
                                 total_budget := b\<rparr>)) \<and>
   (3 < length argv \<and> parse_float w (argv ! 3) = Inl msg \<longrightarrow>
      script w argv = ([], Uncaught (Exception ''ValueError'' msg)))"
  by (simp add: script_def Let_def)

theorem command_line_overrides_witness:
  "3 < length [''crewai_marketing_strategy.py'', ''Acme Notes'', ''Note Taking'', ''75000''] \<and>
   parse_float sample_world ''75000'' = Inr (Finite 75000) \<and>
   parse_float sample_world ''lots'' = Inl ''could not convert string to float'' \<and>
   script sample_world [''crewai_marketing_strategy.py''] = main sample_world default_kwargs \<and>
   script sample_world [''crewai_marketing_strategy.py'', ''Acme Notes'', ''Note Taking'', ''75000''] =
     main sample_world
       (default_kwargs\<lparr>product_name := ''Acme Notes'', product_category := ''Note Taking'',
                        total_budget := Finite 75000\<rparr>) \<and>
   script sample_world [''crewai_marketing_strategy.py'', ''Acme Notes'', ''Note Taking'', ''lots''] =
     ([], Uncaught (Exception ''ValueError'' ''could not convert string to float''))"
proof -
  let ?ok = "[''crewai_marketing_strategy.py'', ''Acme Notes'', ''Note Taking'', ''75000'']"
  let ?bad = "[''crewai_marketing_strategy.py'', ''Acme Notes'', ''Note Taking'', ''lots'']"
  have 1: "length [''crewai_marketing_strategy.py''] \<le> 1" by simp
  have 2: "3 < length ?ok \<and> parse_float sample_world (?ok ! 3) = Inr (Finite 75000)"
    by (simp add: sample_world_def)
  have 3: "3 < length ?bad \<and>
           parse_float sample_world (?bad ! 3) = Inl ''could not convert string to float''"
    by (simp add: sample_world_def)
  have a: "script sample_world [''crewai_marketing_strategy.py''] = main sample_world default_kwargs"
    using command_line_overrides [of "[''crewai_marketing_strategy.py'']" sample_world] 1
    by blast
  have b: "script sample_world ?ok =
     main sample_world
       (default_kwargs\<lparr>product_name := ?ok ! 1, product_category := ?ok ! 2,
                        total_budget := Finite 75000\<rparr>)"
    using command_line_overrides [of ?ok sample_world "Finite 75000"] 2 by blast
  have c: "script sample_world ?bad =
     ([], Uncaught (Exception ''ValueError'' ''could not convert string to float''))"
    using command_line_overrides [of ?bad sample_world _ "''could not convert string to float''"] 3
    by blast
  from a b c 2 3 show ?thesis by simp
qed


section \<open>The crew of five\<close>

text \<open>
  Claim C4. The crew is made of exactly five agents, with the roles Market Research Analyst,
  Content Strategist, Marketing Channel Specialist, Campaign Planner and Marketing Budget
  Analyst, each created by its own function with \<^verbatim>\<open>allow_delegation=False\<close>; it has exactly
  five tasks, and the task at each position is assigned to the agent at that position.
\<close>

theorem crew_of_five:
  "agents (main_crew a) =
     [create_market_research_agent (product_name a) (product_category a),
      create_content_strategist_agent (product_name a) (target_audience a),
      create_channel_specialist_agent (product_category a) (target_audience a),
      create_campaign_planner_agent (product_name a) (target_audience a),
      create_budget_analyst_agent (product_category a)] \<and>
   map role (agents (main_crew a)) =
     [''Market Research Analyst'', ''Content Strategist'', ''Marketing Channel Specialist'',
      ''Campaign Planner'', ''Marketing Budget Analyst''] \<and>
   map allow_delegation (agents (main_crew a)) = [False, False, False, False, False] \<and>
   tasks (main_crew a) =
     [create_market_research_task
        (create_market_research_agent (product_name a) (product_category a))
        (product_name a) (product_category a) (target_audience a) (product_description a),
      create_content_strategy_task
        (create_content_strategist_agent (product_name a) (target_audience a))
        (product_name a) (product_description a) (target_audience a)
        (unique_value_proposition a),
      create_channel_strategy_task
        (create_channel_specialist_agent (product_category a) (target_audience a))
        (product_name a) (product_category a) (target_audience a) (marketing_objectives a),
      create_campaign_plan_task
        (create_campaign_planner_agent (product_name a) (target_audience a))
        (product_name a) (target_audience a) (campaign_timeline a) (marketing_objectives a),
      create_budget_allocation_task (create_budget_analyst_agent (product_category a))
        (product_name a) (total_budget a) (marketing_objectives a) (campaign_timeline a)] \<and>
   length (agents (main_crew a)) = 5 \<and> length (tasks (main_crew a)) = 5 \<and>
   map agent (tasks (main_crew a)) = agents (main_crew a) \<and>
   process (main_crew a) = ''sequential''"
proof -
  have ag: "agents (main_crew a) =
     [create_market_research_agent (product_name a) (product_category a),
      create_content_strategist_agent (product_name a) (target_audience a),
      create_channel_specialist_agent (product_category a) (target_audience a),
      create_campaign_planner_agent (product_name a) (target_audience a),
      create_budget_analyst_agent (product_category a)]"
    by (simp add: main_crew_def form_crew_def Let_def)
  have tk: "tasks (main_crew a) =
     [create_market_research_task
        (create_market_research_agent (product_name a) (product_category a))
        (product_name a) (product_category a) (target_audience a) (product_description a),
      create_content_strategy_task
        (create_content_strategist_agent (product_name a) (target_audience a))
        (product_name a) (product_description a) (target_audience a)
        (unique_value_proposition a),
      create_channel_strategy_task
        (create_channel_specialist_agent (product_category a) (target_audience a))
        (product_name a) (product_category a) (target_audience a) (marketing_objectives a),
      create_campaign_plan_task
        (create_campaign_planner_agent (product_name a) (target_audience a))
        (product_name a) (target_audience a) (campaign_timeline a) (marketing_objectives a),
      create_budget_allocation_task (create_budget_analyst_agent (product_category a))
        (product_name a) (total_budget a) (marketing_objectives a) (campaign_timeline a)]"
    by (simp add: main_crew_def form_crew_def Let_def)
  have pr: "process (main_crew a) = ''sequential''"
    by (simp add: main_crew_def form_crew_def Let_def)
  have ro: "map role (agents (main_crew a)) =
     [''Market Research Analyst'', ''Content Strategist'', ''Marketing Channel Specialist'',
      ''Campaign Planner'', ''Marketing Budget Analyst'']"
    unfolding ag
    by (simp add: create_market_research_agent_def create_content_strategist_agent_def
        create_channel_specialist_agent_def create_campaign_planner_agent_def
        create_budget_analyst_agent_def)
  have de: "map allow_delegation (agents (main_crew a)) = [False, False, False, False, False]"
    unfolding ag
    by (simp add: create_market_research_agent_def create_content_strategist_agent_def
        create_channel_specialist_agent_def create_campaign_planner_agent_def
        create_budget_analyst_agent_def)
  have ma: "map agent (tasks (main_crew a)) = agents (main_crew a)"
    unfolding ag tk
    by (simp add: create_market_research_task_def create_content_strategy_task_def
        create_channel_strategy_task_def create_campaign_plan_task_def
        create_budget_allocation_task_def)
  show ?thesis using ag tk pr ro de ma by simp
qed

subsection \<open>The body of \<^verbatim>\<open>try\<close>\<close>

lemma kickoff_fst: "fst (kickoff w c) = Kickoff c # fst (run_tasks (llm w) None (tasks c))"
  by (simp add: kickoff_def case_prod_beta)

lemma kickoff_snd: "snd (kickoff w c) = snd (run_tasks (llm w) None (tasks c))"
  by (simp add: kickoff_def case_prod_beta)

lemma write_all_Cons_None:
  "wr n = None \<Longrightarrow>
   write_all wr n (s # ss) = (Write_f s # fst (write_all wr (Suc n) ss), snd (write_all wr (Suc n) ss))"
  by (simp add: case_prod_beta)

lemma write_all_silent:
  "kickoffs (fst (write_all wr n ss)) = [] \<and> task_runs (fst (write_all wr n ss)) = [] \<and>
   files_created (fst (write_all wr n ss)) = []"
proof (induction ss arbitrary: n)
  case Nil
  show ?case by simp
next
  case (Cons s ss)
  show ?case
  proof (cases "wr n")
    case None
    then show ?thesis using Cons [of "Suc n"]
      by (simp add: write_all_Cons_None del: write_all.simps)
  next
    case (Some e)
    then show ?thesis by simp
  qed
qed

lemma write_all_ok:
  "snd (write_all wr n ss) = None \<Longrightarrow> fst (write_all wr n ss) = map Write_f ss"
proof (induction ss arbitrary: n)
  case Nil
  show ?case by simp
next
  case (Cons s ss)
  show ?case
  proof (cases "wr n")
    case None
    with Cons.prems have "snd (write_all wr (Suc n) ss) = None"
      by (simp add: write_all_Cons_None del: write_all.simps)
    then have "fst (write_all wr (Suc n) ss) = map Write_f ss" by (rule Cons.IH)
    with None show ?thesis by (simp add: write_all_Cons_None del: write_all.simps)
  next
    case (Some e)
    with Cons.prems show ?thesis by simp
  qed
qed

lemma write_all_never_fails:
  "(\<And>k. wr k = None) \<Longrightarrow> write_all wr n ss = (map Write_f ss, None)"
  by (induction ss arbitrary: n) simp_all

lemma written_map_Write_f: "written (map Write_f ss) = concat ss"
  by (induction ss) simp_all

lemma try_body_kickoffs: "kickoffs (fst (try_body w a c)) = [c]"
  by (simp add: try_body_def case_prod_beta Let_def kickoff_fst proj_append run_tasks_silent
      write_all_silent split: sum.splits option.splits)

lemma try_body_task_runs:
  "task_runs (fst (try_body w a c)) = task_runs (fst (run_tasks (llm w) None (tasks c)))"
  by (simp add: try_body_def case_prod_beta Let_def kickoff_fst proj_append
      write_all_silent split: sum.splits option.splits)

lemma try_body_files_created:
  "files_created (fst (try_body w a c)) =
     (case snd (kickoff w c) of
        Inl e \<Rightarrow> []
      | Inr result \<Rightarrow>
          (case open_w w (output_filename w a) of
             None \<Rightarrow> [output_filename w a]
           | Some e \<Rightarrow> []))"
  by (simp add: try_body_def case_prod_beta Let_def kickoff_fst proj_append run_tasks_silent
      write_all_silent split: sum.splits option.splits)

lemma try_body_raised_in_kickoff:
  "snd (kickoff w c) = Inl e \<Longrightarrow>
   snd (try_body w a c) = Some e \<and> written (fst (try_body w a c)) = [] \<and>
   files_created (fst (try_body w a c)) = []"
  by (simp add: try_body_def case_prod_beta Let_def kickoff_fst proj_append run_tasks_silent)

lemma try_body_completed:
  "snd (kickoff w c) = Inr result \<Longrightarrow> snd (try_body w a c) = None \<Longrightarrow>
   open_w w (output_filename w a) = None \<and>
   written (fst (try_body w a c)) = concat (report_chunks w a result)"
  by (simp add: try_body_def case_prod_beta Let_def kickoff_fst proj_append run_tasks_silent
      write_all_ok written_map_Write_f split: option.splits)

lemma main_projections:
  assumes "validate_config w"
  shows "kickoffs (fst (main w a)) = [main_crew a]"
    and "task_runs (fst (main w a)) =
           task_runs (fst (run_tasks (llm w) None (tasks (main_crew a))))"
    and "files_created (fst (main w a)) = files_created (fst (try_body w a (main_crew a)))"
    and "written (fst (main w a)) = written (fst (try_body w a (main_crew a)))"
proof -
  let ?t = "try_body w a (main_crew a)"
  have m: "fst (main w a) =
      print_banner a @ configure w @ fst (form_crew a) @ fst ?t @
      (case snd ?t of None \<Rightarrow> [] | Some e \<Rightarrow> if is_Exception e then except_body e else [])"
  proof (cases "snd ?t")
    case None
    with assms show ?thesis by (simp add: main_returns)
  next
    case (Some e)
    with assms show ?thesis by (cases "is_Exception e") (simp_all add: main_catches main_propagates)
  qed
  show "kickoffs (fst (main w a)) = [main_crew a]"
    unfolding m
    by (simp add: proj_append banner_silent configure_silent form_crew_silent
        except_body_silent try_body_kickoffs split: option.splits)
  show "task_runs (fst (main w a)) =
           task_runs (fst (run_tasks (llm w) None (tasks (main_crew a))))"
    unfolding m
    by (simp add: proj_append banner_silent configure_silent form_crew_silent
        except_body_silent try_body_task_runs split: option.splits)
  show "files_created (fst (main w a)) = files_created (fst (try_body w a (main_crew a)))"
    unfolding m
    by (simp add: proj_append banner_silent configure_silent form_crew_silent
        except_body_silent split: option.splits)
  show "written (fst (main w a)) = written (fst (try_body w a (main_crew a)))"
    unfolding m
    by (simp add: proj_append banner_silent configure_silent form_crew_silent
        except_body_silent split: option.splits)
qed

lemma main_crew_tasks:
  "tasks (main_crew a) =
     [create_market_research_task
        (create_market_research_agent (product_name a) (product_category a))
        (product_name a) (product_category a) (target_audience a) (product_description a),
      create_content_strategy_task
        (create_content_strategist_agent (product_name a) (target_audience a))
        (product_name a) (product_description a) (target_audience a)
        (unique_value_proposition a),
      create_channel_strategy_task
        (create_channel_specialist_agent (product_category a) (target_audience a))
        (product_name a) (product_category a) (target_audience a) (marketing_objectives a),
      create_campaign_plan_task
        (create_campaign_planner_agent (product_name a) (target_audience a))
        (product_name a) (target_audience a) (campaign_timeline a) (marketing_objectives a),
      create_budget_allocation_task (create_budget_analyst_agent (product_category a))
        (product_name a) (total_budget a) (marketing_objectives a) (campaign_timeline a)]"
  by (simp add: main_crew_def form_crew_def Let_def)

lemma main_crew_process: "process (main_crew a) = ''sequential''"
  by (simp add: main_crew_def form_crew_def Let_def)


lemma task_agent_simps:
  "agent (create_market_research_task g p c t d) = g"
  "agent (create_content_strategy_task g p d t u) = g"
  "agent (create_channel_strategy_task g p c t m) = g"
  "agent (create_campaign_plan_task g p t l m) = g"
  "agent (create_budget_allocation_task g p b m l) = g"
  by (simp_all add: create_market_research_task_def create_content_strategy_task_def
      create_channel_strategy_task_def create_campaign_plan_task_def
      create_budget_allocation_task_def)

lemma agent_role_simps:
  "role (create_market_research_agent p c) = ''Market Research Analyst''"
  "role (create_content_strategist_agent p t) = ''Content Strategist''"
  "role (create_channel_specialist_agent c t) = ''Marketing Channel Specialist''"
  "role (create_campaign_planner_agent p t) = ''Campaign Planner''"
  "role (create_budget_analyst_agent c) = ''Marketing Budget Analyst''"
  by (simp_all add: create_market_research_agent_def create_content_strategist_agent_def
      create_channel_specialist_agent_def create_campaign_planner_agent_def
      create_budget_analyst_agent_def)

lemma sample_run:
  "map snd (task_runs (fst (main sample_world default_kwargs))) =
     [None, Some ''Market Research Analyst'', Some ''Content Strategist'',
      Some ''Marketing Channel Specialist'', Some ''Campaign Planner''] \<and>
   snd (kickoff sample_world (main_crew default_kwargs)) =
     Inr [''Market Research Analyst'', ''Content Strategist'', ''Marketing Channel Specialist'',
          ''Campaign Planner'', ''Marketing Budget Analyst'']"
proof -
  have v: "validate_config sample_world" by (simp add: sample_world_def)
  have l: "llm sample_world = (\<lambda>t ctx. Inr (role (agent t)))" by (simp add: sample_world_def)
  show ?thesis
    unfolding main_projections(2) [OF v] kickoff_snd main_crew_tasks l
    by (simp add: task_agent_simps agent_role_simps)
qed

section \<open>The pipeline is linear\<close>

text \<open>
  Claim C1. The orchestration is a fixed linear pipeline of five steps: \<^verbatim>\<open>crew.kickoff()\<close> is
  called exactly once in a run, on the crew whose tasks are market research, content
  strategy, channel strategy, campaign plan and budget allocation, in that order and with the
  sequential process. The tasks that run are an initial segment of that list, each run once
  and in order (all five when \<^verbatim>\<open>kickoff\<close> returns); each receives the output of the task
  before it; a task that raises is the last to run: nothing is retried, and nothing branches.
\<close>

theorem pipeline_is_linear:
  assumes "validate_config w"
  shows "kickoffs (fst (main w a)) = [main_crew a] \<and>
   process (main_crew a) = ''sequential'' \<and>
   tasks (main_crew a) =
     [create_market_research_task
        (create_market_research_agent (product_name a) (product_category a))
        (product_name a) (product_category a) (target_audience a) (product_description a),
      create_content_strategy_task
        (create_content_strategist_agent (product_name a) (target_audience a))
        (product_name a) (product_description a) (target_audience a)
        (unique_value_proposition a),
      create_channel_strategy_task
        (create_channel_specialist_agent (product_category a) (target_audience a))
        (product_name a) (product_category a) (target_audience a) (marketing_objectives a),
      create_campaign_plan_task
        (create_campaign_planner_agent (product_name a) (target_audience a))
        (product_name a) (target_audience a) (campaign_timeline a) (marketing_objectives a),
      create_budget_allocation_task (create_budget_analyst_agent (product_category a))
        (product_name a) (total_budget a) (marketing_objectives a) (campaign_timeline a)] \<and>
   prefix (map fst (task_runs (fst (main w a)))) (tasks (main_crew a)) \<and>
   handed_on (llm w) None (task_runs (fst (main w a))) \<and>
   (case snd (kickoff w (main_crew a)) of
      Inl e \<Rightarrow> True
    | Inr outs \<Rightarrow>
        map fst (task_runs (fst (main w a))) = tasks (main_crew a) \<and> length outs = 5)"
proof -
  let ?rt = "run_tasks (llm w) None (tasks (main_crew a))"
  have r: "task_runs (fst (main w a)) = task_runs (fst ?rt)"
    using assms by (rule main_projections(2))
  have 1: "kickoffs (fst (main w a)) = [main_crew a]"
    using assms by (rule main_projections(1))
  have 4: "prefix (map fst (task_runs (fst (main w a)))) (tasks (main_crew a))"
    unfolding r by (rule run_tasks_prefix)
  have 5: "handed_on (llm w) None (task_runs (fst (main w a)))"
    unfolding r by (rule run_tasks_handed_on)
  have 6: "(case snd (kickoff w (main_crew a)) of
      Inl e \<Rightarrow> True
    | Inr outs \<Rightarrow>
        map fst (task_runs (fst (main w a))) = tasks (main_crew a) \<and> length outs = 5)"
  proof (cases "snd ?rt")
    case (Inl e)
    then show ?thesis by (simp add: kickoff_snd)
  next
    case (Inr outs)
    from run_tasks_success [OF Inr] have
      "map fst (task_runs (fst ?rt)) = tasks (main_crew a) \<and>
       length outs = length (tasks (main_crew a))" .
    moreover have "length (tasks (main_crew a)) = 5" by (simp add: main_crew_tasks)
    ultimately show ?thesis using Inr r by (simp add: kickoff_snd)
  qed
  show ?thesis using 1 main_crew_process main_crew_tasks 4 5 6 by blast
qed

theorem pipeline_is_linear_witness:
  "validate_config sample_world \<and>
   kickoffs (fst (main sample_world default_kwargs)) = [main_crew default_kwargs] \<and>
   prefix (map fst (task_runs (fst (main sample_world default_kwargs))))
     (tasks (main_crew default_kwargs)) \<and>
   handed_on (llm sample_world) None (task_runs (fst (main sample_world default_kwargs))) \<and>
   map snd (task_runs (fst (main sample_world default_kwargs))) =
     [None, Some ''Market Research Analyst'', Some ''Content Strategist'',
      Some ''Marketing Channel Specialist'', Some ''Campaign Planner'']"
proof -
  have v: "validate_config sample_world" by (simp add: sample_world_def)
  from pipeline_is_linear [OF v, of default_kwargs] sample_run v show ?thesis by blast
qed

subsection \<open>Runs in the sample worlds\<close>

lemma try_body_succeeds:
  "snd (kickoff w c) = Inr result \<Longrightarrow> open_w w (output_filename w a) = None \<Longrightarrow>
   (\<And>k. write_f w k = None) \<Longrightarrow> snd (try_body w a c) = None"
  by (simp add: try_body_def case_prod_beta Let_def write_all_never_fails)

lemma try_body_open_fails:
  "snd (kickoff w c) = Inr result \<Longrightarrow> open_w w (output_filename w a) = Some e \<Longrightarrow>
   snd (try_body w a c) = Some e"
  by (simp add: try_body_def case_prod_beta Let_def)

lemma kickoff_first_task_raises:
  "llm w = (\<lambda>t ctx. Inl e) \<Longrightarrow> snd (kickoff w (main_crew a)) = Inl e"
  by (simp add: kickoff_snd main_crew_tasks)

lemma kickoff_role_outputs:
  "llm w = (\<lambda>t ctx. Inr (role (agent t))) \<Longrightarrow>
   snd (kickoff w (main_crew a)) =
     Inr [''Market Research Analyst'', ''Content Strategist'', ''Marketing Channel Specialist'',
          ''Campaign Planner'', ''Marketing Budget Analyst'']"
  by (simp add: kickoff_snd main_crew_tasks task_agent_simps agent_role_simps)

lemma slash_output_filename:
  "script_dir w = [''home'', ''lab'', ''crewai''] \<Longrightarrow>
   now_stamp w = \<lparr>year = 2026, month = 11, day = 4, hour = 1, minute = 2, second = 3\<rparr> \<Longrightarrow>
   output_filename w slash_kwargs =
     [''home'', ''lab'', ''crewai'', ''marketing_strategy_ci'', ''cd_tool_20261104_010203.txt'']"
  by (simp add: output_filename_def slash_kwargs_def default_kwargs_def path_div_def
      path_parts_def lower_def replace_def lower_char_def strftime_stamp_def eval_digits)

section \<open>The single handler\<close>

text \<open>
  Claim C2, as amended. For every exception that is an instance of \<^verbatim>\<open>Exception\<close> and is
  raised in the body of \<^verbatim>\<open>try\<close> (by \<^verbatim>\<open>crew.kickoff()\<close> or by the writing of the report), the
  only failure handling is the one handler: it prints the error message with \<^verbatim>\<open>str(e)\<close>, the
  three troubleshooting hints and the traceback, as the last things the run does; the
  exception is not raised again, \<^verbatim>\<open>kickoff\<close> is not called a second time, and \<^verbatim>\<open>main\<close>
  returns normally.
\<close>

theorem exception_caught_and_printed:
  assumes "validate_config w"
    and "snd (try_body w a (main_crew a)) = Some e"
    and "is_Exception e"
  shows "snd (main w a) = Returned \<and>
   suffix
     [Print (''\<newline>'' @ utf8 0x274C @ '' Error during crew execution: '' @ str_exn e),
      Print (''\<newline>'' @ utf8 0x1F50D @ '' Troubleshooting:''),
      Print ''   1. Verify OPENAI_API_KEY is set in parent directory .env file'',
      Print ''   2. Check API key is valid and has sufficient credits'',
      Print ''   3. Verify internet connection'',
      Print [],
      Print_exc e]
     (fst (main w a)) \<and>
   kickoffs (fst (main w a)) = [main_crew a]"
proof -
  have m: "main w a =
     (print_banner a @ configure w @ fst (form_crew a) @ fst (try_body w a (main_crew a)) @
      except_body e, Returned)"
    using assms by (rule main_catches)
  have "fst (main w a) =
     (print_banner a @ configure w @ fst (form_crew a) @ fst (try_body w a (main_crew a))) @
     except_body e"
    unfolding m by simp
  then have "suffix (except_body e) (fst (main w a))" by (metis suffixI)
  then have s: "suffix
     [Print (''\<newline>'' @ utf8 0x274C @ '' Error during crew execution: '' @ str_exn e),
      Print (''\<newline>'' @ utf8 0x1F50D @ '' Troubleshooting:''),
      Print ''   1. Verify OPENAI_API_KEY is set in parent directory .env file'',
      Print ''   2. Check API key is valid and has sufficient credits'',
      Print ''   3. Verify internet connection'',
      Print [],
      Print_exc e]
     (fst (main w a))"
    unfolding except_body_def .
  have "snd (main w a) = Returned" unfolding m by simp
  moreover have "kickoffs (fst (main w a)) = [main_crew a]"
    using assms(1) by (rule main_projections(1))
  ultimately show ?thesis using s by blast
qed

theorem exception_caught_and_printed_witness:
  "validate_config offline_world \<and>
   snd (try_body offline_world default_kwargs (main_crew default_kwargs)) =
     Some (Exception ''APIConnectionError'' ''Connection error.'') \<and>
   is_Exception (Exception ''APIConnectionError'' ''Connection error.'') \<and>
   snd (main offline_world default_kwargs) = Returned \<and>
   kickoffs (fst (main offline_world default_kwargs)) = [main_crew default_kwargs]"
proof -
  let ?e = "Exception ''APIConnectionError'' ''Connection error.''"
  have v: "validate_config offline_world" by (simp add: offline_world_def sample_world_def)
  have l: "llm offline_world = (\<lambda>t ctx. Inl ?e)" by (simp add: offline_world_def)
  have t: "snd (try_body offline_world default_kwargs (main_crew default_kwargs)) = Some ?e"
    using try_body_raised_in_kickoff [OF kickoff_first_task_raises [OF l]] by blast
  have x: "is_Exception ?e" by simp
  from exception_caught_and_printed [OF v t x] v t x show ?thesis by blast
qed


text \<open>
  Claim C2 as stated, for every exception, fails: \<^verbatim>\<open>except Exception\<close> does not catch a
  \<^verbatim>\<open>KeyboardInterrupt\<close>. When the user interrupts the first task, the exception leaves
  \<^verbatim>\<open>main\<close> uncaught.
\<close>

theorem interrupt_leaves_main:
  "snd (main interrupted_world default_kwargs) = Uncaught (Base_only ''KeyboardInterrupt'' []) \<and>
   kickoffs (fst (main interrupted_world default_kwargs)) = [main_crew default_kwargs]"
proof -
  let ?e = "Base_only ''KeyboardInterrupt'' []"
  have v: "validate_config interrupted_world"
    by (simp add: interrupted_world_def sample_world_def)
  have l: "llm interrupted_world = (\<lambda>t ctx. Inl ?e)" by (simp add: interrupted_world_def)
  have t: "snd (try_body interrupted_world default_kwargs (main_crew default_kwargs)) = Some ?e"
    using try_body_raised_in_kickoff [OF kickoff_first_task_raises [OF l]] by blast
  have x: "\<not> is_Exception ?e" by simp
  have o: "snd (main interrupted_world default_kwargs) = Uncaught ?e"
    using main_propagates [OF v t x] by simp
  have k: "kickoffs (fst (main interrupted_world default_kwargs)) = [main_crew default_kwargs]"
    using v by (rule main_projections(1))
  from o k show ?thesis by blast
qed


section \<open>The report and the failure of the crew\<close>

text \<open>
  Claim C9, as amended. A report file is created only if \<^verbatim>\<open>crew.kickoff()\<close> returns without
  raising: when \<^verbatim>\<open>kickoff\<close> raises, neither \<^verbatim>\<open>open\<close> nor \<^verbatim>\<open>write\<close> is reached, and no file
  comes into existence. When \<^verbatim>\<open>kickoff\<close> returns, the file at the report's path is created
  if \<^verbatim>\<open>open\<close> succeeds, and no file is created if \<^verbatim>\<open>open\<close> raises.
\<close>

theorem report_only_after_kickoff:
  assumes "validate_config w"
  shows "files_created (fst (main w a)) =
     (case snd (kickoff w (main_crew a)) of
        Inl e \<Rightarrow> []
      | Inr result \<Rightarrow>
          (case open_w w (output_filename w a) of
             None \<Rightarrow> [output_filename w a]
           | Some e \<Rightarrow> [])) \<and>
   (case snd (kickoff w (main_crew a)) of
      Inl e \<Rightarrow> written (fst (main w a)) = []
    | Inr result \<Rightarrow> True)"
proof -
  have 1: "files_created (fst (main w a)) =
     (case snd (kickoff w (main_crew a)) of
        Inl e \<Rightarrow> []
      | Inr result \<Rightarrow>
          (case open_w w (output_filename w a) of
             None \<Rightarrow> [output_filename w a]
           | Some e \<Rightarrow> []))"
    unfolding main_projections(3) [OF assms] by (rule try_body_files_created)
  have 2: "(case snd (kickoff w (main_crew a)) of
      Inl e \<Rightarrow> written (fst (main w a)) = []
    | Inr result \<Rightarrow> True)"
    unfolding main_projections(4) [OF assms]
    using try_body_raised_in_kickoff [of w "main_crew a" _ a] by (simp split: sum.splits)
  from 1 2 show ?thesis by blast
qed

theorem report_only_after_kickoff_witness:
  "validate_config offline_world \<and> validate_config sample_world \<and>
   files_created (fst (main offline_world default_kwargs)) = [] \<and>
   written (fst (main offline_world default_kwargs)) = [] \<and>
   files_created (fst (main sample_world default_kwargs)) =
     [output_filename sample_world default_kwargs]"
proof -
  let ?e = "Exception ''APIConnectionError'' ''Connection error.''"
  have v: "validate_config offline_world" by (simp add: offline_world_def sample_world_def)
  have l: "llm offline_world = (\<lambda>t ctx. Inl ?e)" by (simp add: offline_world_def)
  have k: "snd (kickoff offline_world (main_crew default_kwargs)) = Inl ?e"
    using l by (rule kickoff_first_task_raises)
  have v': "validate_config sample_world" by (simp add: sample_world_def)
  have l': "llm sample_world = (\<lambda>t ctx. Inr (role (agent t)))" by (simp add: sample_world_def)
  have o': "open_w sample_world (output_filename sample_world default_kwargs) = None"
    by (simp add: sample_world_def)
  from report_only_after_kickoff [OF v, of default_kwargs] k
  have a: "files_created (fst (main offline_world default_kwargs)) = [] \<and>
           written (fst (main offline_world default_kwargs)) = []"
    by simp
  from report_only_after_kickoff [OF v', of default_kwargs] kickoff_role_outputs [OF l'] o'
  have b: "files_created (fst (main sample_world default_kwargs)) =
             [output_filename sample_world default_kwargs]"
    by simp
  from a b v v' show ?thesis by blast
qed


text \<open>
  Claim C9 as stated, with "if and only if", fails: \<^verbatim>\<open>kickoff\<close> can return and the report
  still not be created. With the product name \<^verbatim>\<open>CI/CD Tool\<close> the path of the report lies in
  a directory that does not exist; \<^verbatim>\<open>open\<close> raises, the handler prints the error, and no
  file has been created.
\<close>

theorem kickoff_returns_but_no_report:
  "snd (kickoff bare_world (main_crew slash_kwargs)) =
     Inr [''Market Research Analyst'', ''Content Strategist'', ''Marketing Channel Specialist'',
          ''Campaign Planner'', ''Marketing Budget Analyst''] \<and>
   files_created (fst (main bare_world slash_kwargs)) = [] \<and>
   snd (main bare_world slash_kwargs) = Returned"
proof -
  let ?e = "Exception ''FileNotFoundError'' ''[Errno 2] No such file or directory''"
  have v: "validate_config bare_world" by (simp add: bare_world_def sample_world_def)
  have l: "llm bare_world = (\<lambda>t ctx. Inr (role (agent t)))"
    by (simp add: bare_world_def sample_world_def)
  have k: "snd (kickoff bare_world (main_crew slash_kwargs)) =
     Inr [''Market Research Analyst'', ''Content Strategist'', ''Marketing Channel Specialist'',
          ''Campaign Planner'', ''Marketing Budget Analyst'']"
    using l by (rule kickoff_role_outputs)
  have f: "output_filename bare_world slash_kwargs =
     [''home'', ''lab'', ''crewai'', ''marketing_strategy_ci'', ''cd_tool_20261104_010203.txt'']"
    by (rule slash_output_filename) (simp_all add: bare_world_def sample_world_def)
  have o: "open_w bare_world (output_filename bare_world slash_kwargs) = Some ?e"
    unfolding f by (simp add: bare_world_def parent_def)
  have t: "snd (try_body bare_world slash_kwargs (main_crew slash_kwargs)) = Some ?e"
    using k o by (rule try_body_open_fails)
  have r: "snd (main bare_world slash_kwargs) = Returned"
    using main_catches [OF v t] by simp
  have c: "files_created (fst (main bare_world slash_kwargs)) = []"
    unfolding main_projections(3) [OF v] try_body_files_created using k o by simp
  from k c r show ?thesis by blast
qed

subsection \<open>The path of the report\<close>



lemma is_digit_not_slash: "is_digit c \<Longrightarrow> c \<noteq> CHR ''/''"
  by (auto simp: is_digit_def)









lemma try_body_None:
  assumes "snd (try_body w a c) = None"
  shows "(\<exists>outs. snd (kickoff w c) = Inr outs) \<and> open_w w (output_filename w a) = None"
proof (cases "snd (kickoff w c)")
  case (Inl e)
  from try_body_raised_in_kickoff [OF Inl, of a] assms show ?thesis by simp
next
  case (Inr outs)
  show ?thesis
  proof (cases "open_w w (output_filename w a)")
    case None
    with Inr show ?thesis by simp
  next
    case (Some e)
    from try_body_open_fails [OF Inr Some] assms show ?thesis by simp
  qed
qed


lemma files_created_when_done:
  assumes "validate_config w" "snd (try_body w a (main_crew a)) = None"
  shows "files_created (fst (main w a)) = [output_filename w a]"
proof -
  from try_body_None [OF assms(2)] obtain outs where
    k: "snd (kickoff w (main_crew a)) = Inr outs" and o: "open_w w (output_filename w a) = None"
    by blast
  show ?thesis
    unfolding main_projections(3) [OF assms(1)] try_body_files_created using k o by simp
qed


lemma sample_world_completes:
  "llm w = (\<lambda>t ctx. Inr (role (agent t))) \<Longrightarrow> open_w w = (\<lambda>p. None) \<Longrightarrow>
   write_f w = (\<lambda>n. None) \<Longrightarrow> snd (try_body w a (main_crew a)) = None"
  using try_body_succeeds [OF kickoff_role_outputs, of w a a] by simp


section \<open>The name of the report\<close>






section \<open>What the report holds\<close>

text \<open>
  A run of the tasks that ends well returns one output per task run, each of them the answer
  of the language model to that task and its context.
\<close>

lemma run_tasks_outputs:
  "snd (run_tasks ex ctx ts) = Inr outs \<Longrightarrow>
   list_all2 (\<lambda>r out. ex (fst r) (snd r) = Inr out) (task_runs (fst (run_tasks ex ctx ts))) outs"
proof (induction ts arbitrary: ctx outs)
  case Nil
  then show ?case by simp
next
  case (Cons t ts)
  show ?case
  proof (cases "ex t ctx")
    case (Inl e)
    with Cons.prems show ?thesis by (simp add: run_tasks_Cons_Inl del: run_tasks.simps)
  next
    case (Inr out)
    note o = Inr
    show ?thesis
    proof (cases "snd (run_tasks ex (Some out) ts)")
      case (Inl e)
      with o Cons.prems show ?thesis by (simp add: run_tasks_Cons_Inr del: run_tasks.simps)
    next
      case (Inr outs')
      with o Cons.prems have "outs = out # outs'"
        by (simp add: run_tasks_Cons_Inr del: run_tasks.simps)
      with o Inr Cons.IH [of "Some out" outs'] show ?thesis
        by (simp add: run_tasks_Cons_Inr del: run_tasks.simps)
    qed
  qed
qed

text \<open>
  Claim C3. When the pipeline completes without an exception (the configuration is valid,
  \<^verbatim>\<open>crew.kickoff()\<close> returns the outputs and nothing in the \<^verbatim>\<open>try\<close> block raises), exactly
  one file is created, the report, and what is written to it is: a header giving the product
  name, the category, the target audience, the budget, the timeline and the generation time,
  then the concatenation of the outputs of the stages, then a closing rule. There are five
  outputs, one per task of the crew in order, each the answer of the model to that task.
\<close>

theorem report_contents:
  assumes "validate_config w"
    and "snd (kickoff w (main_crew a)) = Inr outs"
    and "snd (try_body w a (main_crew a)) = None"
  shows "files_created (fst (main w a)) = [output_filename w a] \<and>
   written (fst (main w a)) =
     rule80 @ ''\<newline>'' @
     ''MARKETING STRATEGY REPORT\<newline>'' @
     rule80 @ ''\<newline>\<newline>'' @
     ''Product: '' @ product_name a @ ''\<newline>'' @
     ''Category: '' @ product_category a @ ''\<newline>'' @
     ''Target Audience: '' @ target_audience a @ ''\<newline>'' @
     ''Budget: $'' @ format_comma_0f (total_budget a) @ ''\<newline>'' @
     ''Timeline: '' @ campaign_timeline a @ ''\<newline>'' @
     ''Generated: '' @ strftime_generated (now_generated w) @ ''\<newline>\<newline>'' @
     rule80 @ ''\<newline>'' @
     ''COMPREHENSIVE MARKETING STRATEGY\<newline>'' @
     rule80 @ ''\<newline>\<newline>'' @
     concat outs @
     ''\<newline>'' @ rule80 @ ''\<newline>'' \<and>
   length outs = 5 \<and>
   map fst (task_runs (fst (main w a))) = tasks (main_crew a) \<and>
   list_all2 (\<lambda>r out. llm w (fst r) (snd r) = Inr out) (task_runs (fst (main w a))) outs"
proof -
  let ?rt = "run_tasks (llm w) None (tasks (main_crew a))"
  have k: "snd ?rt = Inr outs" using assms(2) by (simp add: kickoff_snd)
  have 1: "files_created (fst (main w a)) = [output_filename w a]"
    using assms(1,3) by (rule files_created_when_done)
  have "written (fst (main w a)) = concat (report_chunks w a outs)"
    unfolding main_projections(4) [OF assms(1)] using try_body_completed [OF assms(2,3)] by simp
  then have 2: "written (fst (main w a)) =
     rule80 @ ''\<newline>'' @
     ''MARKETING STRATEGY REPORT\<newline>'' @
     rule80 @ ''\<newline>\<newline>'' @
     ''Product: '' @ product_name a @ ''\<newline>'' @
     ''Category: '' @ product_category a @ ''\<newline>'' @
     ''Target Audience: '' @ target_audience a @ ''\<newline>'' @
     ''Budget: $'' @ format_comma_0f (total_budget a) @ ''\<newline>'' @
     ''Timeline: '' @ campaign_timeline a @ ''\<newline>'' @
     ''Generated: '' @ strftime_generated (now_generated w) @ ''\<newline>\<newline>'' @
     rule80 @ ''\<newline>'' @
     ''COMPREHENSIVE MARKETING STRATEGY\<newline>'' @
     rule80 @ ''\<newline>\<newline>'' @
     concat outs @
     ''\<newline>'' @ rule80 @ ''\<newline>''"
    by (simp add: report_chunks_def str_result_def)
  from run_tasks_success [OF k] have s:
    "map fst (task_runs (fst ?rt)) = tasks (main_crew a)"
    "length outs = length (tasks (main_crew a))"
    by simp_all
  have 3: "length outs = 5" using s(2) by (simp add: main_crew_tasks)
  have 4: "map fst (task_runs (fst (main w a))) = tasks (main_crew a)"
    unfolding main_projections(2) [OF assms(1)] by (rule s(1))
  have 5: "list_all2 (\<lambda>r out. llm w (fst r) (snd r) = Inr out) (task_runs (fst (main w a))) outs"
    unfolding main_projections(2) [OF assms(1)] using k by (rule run_tasks_outputs)
  from 1 2 3 4 5 show ?thesis by blast
qed

text \<open>
  The theorem at the sample world and the default arguments, where each stage answers with
  the role of its agent.
\<close>

theorem report_contents_witness:
  "validate_config sample_world \<and>
   snd (kickoff sample_world (main_crew default_kwargs)) =
     Inr [''Market Research Analyst'', ''Content Strategist'', ''Marketing Channel Specialist'',
          ''Campaign Planner'', ''Marketing Budget Analyst''] \<and>
   snd (try_body sample_world default_kwargs (main_crew default_kwargs)) = None \<and>
   files_created (fst (main sample_world default_kwargs)) =
     [output_filename sample_world default_kwargs] \<and>
   written (fst (main sample_world default_kwargs)) =
     rule80 @ ''\<newline>'' @
     ''MARKETING STRATEGY REPORT\<newline>'' @
     rule80 @ ''\<newline>\<newline>'' @
     ''Product: AI-Powered Task Manager\<newline>'' @
     ''Category: Productivity Software\<newline>'' @
     ''Target Audience: Small to medium-sized business teams and remote workers\<newline>'' @
     ''Budget: $50,000\<newline>'' @
     ''Timeline: 3 months (Q1 launch campaign)\<newline>'' @
     ''Generated: 2026-11-04 01:02:04\<newline>\<newline>'' @
     rule80 @ ''\<newline>'' @
     ''COMPREHENSIVE MARKETING STRATEGY\<newline>'' @
     rule80 @ ''\<newline>\<newline>'' @
     ''Market Research Analyst'' @ ''Content Strategist'' @ ''Marketing Channel Specialist'' @
     ''Campaign Planner'' @ ''Marketing Budget Analyst'' @
     ''\<newline>'' @ rule80 @ ''\<newline>''"
proof -
  have v: "validate_config sample_world" by (simp add: sample_world_def)
  have k: "snd (kickoff sample_world (main_crew default_kwargs)) =
     Inr [''Market Research Analyst'', ''Content Strategist'', ''Marketing Channel Specialist'',
          ''Campaign Planner'', ''Marketing Budget Analyst'']"
    by (rule kickoff_role_outputs) (simp add: sample_world_def)
  have t: "snd (try_body sample_world default_kwargs (main_crew default_kwargs)) = None"
    by (rule sample_world_completes) (simp_all add: sample_world_def)
  have b: "format_comma_0f (total_budget default_kwargs) = ''50,000''"
    by (simp add: default_kwargs_def round_half_even_def eval_digits)
  have g: "strftime_generated (now_generated sample_world) = ''2026-11-04 01:02:04''"
    by (simp add: sample_world_def strftime_generated_def eval_digits)
  have p: "product_name default_kwargs = ''AI-Powered Task Manager''"
    "product_category default_kwargs = ''Productivity Software''"
    "target_audience default_kwargs = ''Small to medium-sized business teams and remote workers''"
    "campaign_timeline default_kwargs = ''3 months (Q1 launch campaign)''"
    by (simp_all add: default_kwargs_def)
  from report_contents [OF v k t] have
    "files_created (fst (main sample_world default_kwargs)) =
       [output_filename sample_world default_kwargs]"
    and "written (fst (main sample_world default_kwargs)) =
     rule80 @ ''\<newline>'' @
     ''MARKETING STRATEGY REPORT\<newline>'' @
     rule80 @ ''\<newline>\<newline>'' @
     ''Product: AI-Powered Task Manager\<newline>'' @
     ''Category: Productivity Software\<newline>'' @
     ''Target Audience: Small to medium-sized business teams and remote workers\<newline>'' @
     ''Budget: $50,000\<newline>'' @
     ''Timeline: 3 months (Q1 launch campaign)\<newline>'' @
     ''Generated: 2026-11-04 01:02:04\<newline>\<newline>'' @
     rule80 @ ''\<newline>'' @
     ''COMPREHENSIVE MARKETING STRATEGY\<newline>'' @
     rule80 @ ''\<newline>\<newline>'' @
     ''Market Research Analyst'' @ ''Content Strategist'' @ ''Marketing Channel Specialist'' @
     ''Campaign Planner'' @ ''Marketing Budget Analyst'' @
     ''\<newline>'' @ rule80 @ ''\<newline>''"
    unfolding b g p by simp_all
  with v k t show ?thesis by blast
qed

end
